theory Spec2Isabelle
  imports Main "HOL-Library.Multiset"
begin

section \<open>JavaScript numbers and their text\<close>

text \<open>
  The deck editor keeps quantities in two places: as numbers in the object
  \<open>decklistChanges\<close> and as text in the \<open>.card-quantity\<close> element of a row. The
  handlers convert between the two with \<open>Number(...)\<close> and with the implicit
  conversion of an assignment to \<open>innerText\<close>.

  A JavaScript number is modelled as an integer or NaN. Quantities are counts of cards,
  far below \<open>2 ^ 53\<close>, where the arithmetic of doubles on integers is exact; fractions
  and infinities do not occur in the editor and are not represented.
\<close>

datatype number = Num int | NaN

fun number_plus :: "number \<Rightarrow> int \<Rightarrow> number" where
  "number_plus (Num i) k = Num (i + k)"
| "number_plus NaN k = NaN"

fun number_minus :: "number \<Rightarrow> int \<Rightarrow> number" where
  "number_minus (Num i) k = Num (i - k)"
| "number_minus NaN k = NaN"

fun number_greater :: "number \<Rightarrow> int \<Rightarrow> bool" where
  "number_greater (Num i) k = (i > k)"
| "number_greater NaN k = False"

fun truthy :: "number \<Rightarrow> bool" where
  "truthy (Num i) = (i \<noteq> 0)"
| "truthy NaN = False"

text \<open>\<open>a || b\<close> where \<open>a\<close> is a property read, \<open>undefined\<close> when the key is absent.\<close>

fun or_else :: "number option \<Rightarrow> number \<Rightarrow> number" where
  "or_else None b = b"
| "or_else (Some a) b = (if truthy a then a else b)"

definition digit_char :: "nat \<Rightarrow> char" where
  "digit_char d = char_of (48 + d)"

fun digits :: "nat \<Rightarrow> string" where
  "digits n = (if n < 10 then [digit_char n] else digits (n div 10) @ [digit_char (n mod 10)])"

declare digits.simps [simp del]

text \<open>The text of a number, as an assignment to \<open>innerText\<close> writes it.\<close>

fun ToString :: "number \<Rightarrow> string" where
  "ToString NaN = ''NaN''"
| "ToString (Num i) = (if i < 0 then CHR ''-'' # digits (nat (- i)) else digits (nat i))"

definition is_digit :: "char \<Rightarrow> bool" where
  "is_digit c = ((48::nat) \<le> of_char c \<and> of_char c \<le> (57::nat))"

definition digit_val :: "char \<Rightarrow> nat" where
  "digit_val c = (of_char c :: nat) - 48"

definition is_white :: "char \<Rightarrow> bool" where
  "is_white c = (of_char c \<in> {9, 10, 11, 12, 13, 32, 160::nat})"

definition trim :: "string \<Rightarrow> string" where
  "trim s = rev (dropWhile is_white (rev (dropWhile is_white s)))"

definition unsigned :: "string \<Rightarrow> nat option" where
  "unsigned cs = (if cs \<noteq> [] \<and> list_all is_digit cs
                  then Some (foldl (\<lambda>a c. 10 * a + digit_val c) 0 cs) else None)"

text \<open>
  \<open>Number(text)\<close>: white space around the literal is dropped, the empty text is 0, an
  optionally signed run of decimal digits is its value, and any other text is NaN. (Of
  the literals of the language this covers the integers in decimal notation, the only
  ones the editor ever writes.)
\<close>

definition Number :: "string \<Rightarrow> number" where
  "Number s =
     (case trim s of
        [] \<Rightarrow> Num 0
      | c # r \<Rightarrow>
          if c = CHR ''-'' then (case unsigned r of None \<Rightarrow> NaN | Some n \<Rightarrow> Num (- int n))
          else if c = CHR ''+'' then (case unsigned r of None \<Rightarrow> NaN | Some n \<Rightarrow> Num (int n))
          else (case unsigned (c # r) of None \<Rightarrow> NaN | Some n \<Rightarrow> Num (int n)))"

section \<open>The page\<close>

text \<open>
  Modelled from the spec: the markup of the page is rendered by the server and is not
  part of the scripts. The spec's DOM contract gives its shape: a deck column whose
  element children are rows, the last one a hidden template row; in every row a
  \<open>.card-quantity\<close> and a \<open>.card-name\<close> element and the two controls
  \<open>.remove-card-btn\<close> and \<open>.add-card-btn\<close>, placed so that the quantity element is the
  next sibling of the former and the previous sibling of the latter, three levels below
  the row container; a hero name field with a \<open>data-card-reference\<close> attribute, followed
  by the \<open>#remove-hero\<close> control.

  A row records what the scripts read and write. \<open>row_markup\<close> stands for the rest of the
  row's subtree, which the scripts never touch and \<open>cloneNode(true)\<close> copies. The two
  flags say whether \<open>decreaseCardQuantity\<close> and \<open>increaseCardQuantity\<close> are registered as
  click listeners of the row's controls; no other listener is ever registered on them,
  and registering the same function twice on one element has no further effect.
\<close>

record row =
  row_id :: string
  row_hidden :: bool
  card_quantity :: string
  card_name :: string
  remove_card_btn :: bool
  add_card_btn :: bool
  row_markup :: string

text \<open>
  \<open>decklistChanges\<close> is a plain object used as a dictionary from card references to
  numbers. The map holds its own properties. A plain object also inherits the
  properties of \<open>Object.prototype\<close>, which the operator \<open>in\<close> sees: the test
  \<open>key in decklistChanges\<close> succeeds for an own property and for each of the inherited
  names, and \<open>delete\<close> removes an own property only. A property read finds the
  inherited properties too, whose values are functions and objects, not numbers; the
  reads and writes of the select handler are modelled on the own properties, for card
  references that are none of the inherited names.
\<close>

definition Object_prototype :: "string list" where
  "Object_prototype =
     [''constructor'', ''hasOwnProperty'', ''isPrototypeOf'', ''propertyIsEnumerable'',
      ''toLocaleString'', ''toString'', ''valueOf'', ''__proto__'', ''__defineGetter__'',
      ''__defineSetter__'', ''__lookupGetter__'', ''__lookupSetter__'']"

definition has_property :: "(string \<rightharpoonup> number) \<Rightarrow> string \<Rightarrow> bool" where
  "has_property obj key =
     (case obj key of Some v \<Rightarrow> True | None \<Rightarrow> key \<in> set Object_prototype)"

record page =
  decklistChanges :: "string \<rightharpoonup> number"
  edit_deck_column :: "row list"
  hero_name_value :: string
  hero_name_cardReference :: string
  remove_hero_disabled :: bool

text \<open>The data attributes of a \<open>.card-display\<close> tile.\<close>

record card_display =
  cardReference :: string
  cardName :: string
  cardType :: string

datatype fault = TypeError

text \<open>\<open>document.getElementById\<close> on the rows: the first row with the identifier.\<close>

fun getElementById :: "string \<Rightarrow> row list \<Rightarrow> nat option" where
  "getElementById x [] = None"
| "getElementById x (r # rs) =
     (if row_id r = x then Some 0 else map_option Suc (getElementById x rs))"

text \<open>\<open>cloneNode(true)\<close> copies the subtree with its attributes and text, not its listeners.\<close>

definition cloneNode :: "row \<Rightarrow> row" where
  "cloneNode r = r\<lparr>remove_card_btn := False, add_card_btn := False\<rparr>"

subsection \<open>The handlers\<close>

text \<open>
  A click on a control of a row reaches the handler with the control as
  \<open>event.target\<close>; the row is given by its position in the deck column. A position
  beyond the column names no control, and no event exists for it.
\<close>

definition decreaseCardQuantity :: "nat \<Rightarrow> page \<Rightarrow> page" where
  "decreaseCardQuantity i s =
     (let rows = edit_deck_column s in
      if i < length rows then
        (let quantity = number_minus (Number (card_quantity (rows ! i))) 1 in
         if number_greater quantity 0
         then s\<lparr>edit_deck_column := rows[i := (rows ! i)\<lparr>card_quantity := ToString quantity\<rparr>]\<rparr>
         else s\<lparr>edit_deck_column := take i rows @ drop (Suc i) rows\<rparr>)
      else s)"

definition increaseCardQuantity :: "nat \<Rightarrow> page \<Rightarrow> page" where
  "increaseCardQuantity i s =
     (let rows = edit_deck_column s in
      if i < length rows then
        s\<lparr>edit_deck_column :=
            rows[i := (rows ! i)\<lparr>card_quantity :=
                         ToString (number_plus (Number (card_quantity (rows ! i))) 1)\<rparr>]\<rparr>
      else s)"

definition remove_hero_click :: "page \<Rightarrow> page" where
  "remove_hero_click s =
     (let heroReference = hero_name_cardReference s;
          s1 = s\<lparr>hero_name_value := [], hero_name_cardReference := [],
                 remove_hero_disabled := True\<rparr>
      in if has_property (decklistChanges s1) heroReference
         then s1\<lparr>decklistChanges := (decklistChanges s1)(heroReference := None)\<rparr>
         else s1\<lparr>decklistChanges := (decklistChanges s1)(heroReference \<mapsto> Num 0)\<rparr>)"

definition card_display_click :: "card_display \<Rightarrow> page \<Rightarrow> fault + page" where
  "card_display_click c s =
     (if cardType c = ''hero'' then
        (if hero_name_value s = [] then
           Inr (s\<lparr>hero_name_value := cardName c,
                  hero_name_cardReference := cardReference c,
                  remove_hero_disabled := False,
                  decklistChanges := (decklistChanges s)(cardReference c \<mapsto> Num 1)\<rparr>)
         else Inr s)
      else
        (let rows = edit_deck_column s in
         case getElementById (''row-'' @ cardReference c) rows of
           Some i \<Rightarrow>
             (let quantity = or_else (decklistChanges s (cardReference c))
                                     (Number (card_quantity (rows ! i)));
                  changes = (decklistChanges s)(cardReference c \<mapsto> number_plus quantity 1)
              in Inr (s\<lparr>decklistChanges := changes,
                        edit_deck_column :=
                          rows[i := (rows ! i)\<lparr>card_quantity := ToString (number_plus quantity 1)\<rparr>]\<rparr>))
         | None \<Rightarrow>
             (if rows = [] then Inl TypeError
              else
                (let newCardElement =
                       (cloneNode (last rows))\<lparr>row_id := ''row-'' @ cardReference c,
                          card_quantity := ToString (Num 1),
                          card_name := cardName c,
                          remove_card_btn := True,
                          add_card_btn := True,
                          row_hidden := False\<rparr>
                 in Inr (s\<lparr>edit_deck_column := rows @ [newCardElement],
                           decklistChanges := (decklistChanges s)(cardReference c \<mapsto> Num 1)\<rparr>)))))"

subsection \<open>Page load and the dispatch of clicks\<close>

text \<open>
  On load the script starts with \<open>decklistChanges = {}\<close> and registers
  \<open>decreaseCardQuantity\<close> on every \<open>.remove-card-btn\<close> and \<open>increaseCardQuantity\<close> on
  every \<open>.add-card-btn\<close> of the rendered page.
\<close>

definition page_load :: "page \<Rightarrow> page" where
  "page_load d =
     d\<lparr>decklistChanges := Map.empty,
       edit_deck_column :=
         map (\<lambda>r. r\<lparr>remove_card_btn := True, add_card_btn := True\<rparr>) (edit_deck_column d)\<rparr>"

text \<open>
  The clicks of the user. A click on a row control runs the handler registered on it, if
  there is one; the controls of a hidden row cannot be clicked, and a disabled
  \<open>#remove-hero\<close> button receives no click.
\<close>

datatype click =
    CardDisplay card_display
  | RemoveCardBtn nat
  | AddCardBtn nat
  | RemoveHero

fun dispatch :: "click \<Rightarrow> page \<Rightarrow> fault + page" where
  "dispatch (CardDisplay c) s = card_display_click c s"
| "dispatch (RemoveCardBtn i) s =
     (if i < length (edit_deck_column s) \<and> \<not> row_hidden (edit_deck_column s ! i)
         \<and> remove_card_btn (edit_deck_column s ! i)
      then Inr (decreaseCardQuantity i s) else Inr s)"
| "dispatch (AddCardBtn i) s =
     (if i < length (edit_deck_column s) \<and> \<not> row_hidden (edit_deck_column s ! i)
         \<and> add_card_btn (edit_deck_column s ! i)
      then Inr (increaseCardQuantity i s) else Inr s)"
| "dispatch RemoveHero s =
     (if remove_hero_disabled s then Inr s else Inr (remove_hero_click s))"

text \<open>A sequence of clicks; a fault ends the handler in which it occurs and is reported.\<close>

fun run :: "click list \<Rightarrow> page \<Rightarrow> fault + page" where
  "run [] s = Inr s"
| "run (e # es) s = (case dispatch e s of Inl f \<Rightarrow> Inl f | Inr s' \<Rightarrow> run es s')"

subsection \<open>What the user sees\<close>


text \<open>
  The hero slot is empty exactly when the hero name field is empty, which is the test of
  the select handler; an occupied slot shows a name and stores a reference.
\<close>

definition hero_slot :: "page \<Rightarrow> (string \<times> string) option" where
  "hero_slot s =
     (if hero_name_value s = [] then None
      else Some (hero_name_value s, hero_name_cardReference s))"

subsection \<open>Invariants of the deck column\<close>


text \<open>
  Every row that is shown shows a positive quantity, and the quantity text of a hidden
  row is not a negative number.
\<close>

fun not_negative :: "number \<Rightarrow> bool" where
  "not_negative (Num i) = (0 \<le> i)"
| "not_negative NaN = True"

definition quantities_positive :: "row list \<Rightarrow> bool" where
  "quantities_positive rows =
     list_all (\<lambda>r. if row_hidden r then not_negative (Number (card_quantity r))
                   else number_greater (Number (card_quantity r)) 0) rows"

text \<open>No entry of the change-set is a negative number.\<close>

definition changes_not_negative :: "(string \<rightharpoonup> number) \<Rightarrow> bool" where
  "changes_not_negative m = (\<forall>k v. m k = Some v \<longrightarrow> not_negative v)"

text \<open>
  A click on the decrement control of the last child of the column that removes it
  while the row before it, if there is one, is hidden: the last of the shown rows at
  the end of the column goes, and a hidden row, or nothing, is left at the end.
\<close>

fun removes_last_shown :: "click \<Rightarrow> page \<Rightarrow> bool" where
  "removes_last_shown (RemoveCardBtn i) s =
     (let rows = edit_deck_column s in
      Suc i = length rows \<and> \<not> row_hidden (rows ! i) \<and> remove_card_btn (rows ! i)
      \<and> \<not> number_greater (number_minus (Number (card_quantity (rows ! i))) 1) 0
      \<and> (i = 0 \<or> row_hidden (rows ! (i - 1))))"
| "removes_last_shown e s = False"

text \<open>A sequence of clicks none of which is such a click in the state it meets.\<close>

fun spares_last_shown :: "click list \<Rightarrow> page \<Rightarrow> bool" where
  "spares_last_shown [] s = True"
| "spares_last_shown (e # es) s =
     (\<not> removes_last_shown e s
      \<and> (case dispatch e s of Inl f \<Rightarrow> True | Inr s' \<Rightarrow> spares_last_shown es s'))"

section \<open>The chart of the faction distribution\<close>

text \<open>
  \<open>Object.entries(deckStats).sort((a, b) => b[1] - a[1])\<close>, then the two projections.
  The parsed object is given by its entries in property order. \<open>Array.prototype.sort\<close>
  is stable and the comparison is consistent on numbers, which fixes its result: that
  of the insertion sort below.
\<close>

definition compare_counts :: "string \<times> int \<Rightarrow> string \<times> int \<Rightarrow> int" where
  "compare_counts a b = snd b - snd a"

fun insert_sorted :: "('a \<Rightarrow> 'a \<Rightarrow> int) \<Rightarrow> 'a \<Rightarrow> 'a list \<Rightarrow> 'a list" where
  "insert_sorted cmp x [] = [x]"
| "insert_sorted cmp x (y # ys) =
     (if cmp x y \<le> 0 then x # y # ys else y # insert_sorted cmp x ys)"

fun array_sort :: "('a \<Rightarrow> 'a \<Rightarrow> int) \<Rightarrow> 'a list \<Rightarrow> 'a list" where
  "array_sort cmp [] = []"
| "array_sort cmp (x # xs) = insert_sorted cmp x (array_sort cmp xs)"

definition deckStats :: "(string \<times> int) list \<Rightarrow> (string \<times> int) list" where
  "deckStats entries = array_sort compare_counts entries"

definition labels :: "(string \<times> int) list \<Rightarrow> string list" where
  "labels entries = map fst (deckStats entries)"

definition data :: "(string \<times> int) list \<Rightarrow> int list" where
  "data entries = map snd (deckStats entries)"

section \<open>Example pages\<close>

text \<open>A rendered page with one card in the deck, the hidden template row and no hero.\<close>

definition template_row :: row where
  "template_row =
     \<lparr>row_id = ''row-template'', row_hidden = True, card_quantity = ''0'', card_name = [],
      remove_card_btn = False, add_card_btn = False, row_markup = ''deck-row template''\<rparr>"

definition rendered_page :: page where
  "rendered_page =
     \<lparr>decklistChanges = Map.empty,
      edit_deck_column =
        [\<lparr>row_id = ''row-ALT_CORE_B_AX_04_C'', row_hidden = False, card_quantity = ''2'',
          card_name = ''Sakarabru'', remove_card_btn = False, add_card_btn = False,
          row_markup = ''deck-row rendered''\<rparr>,
         template_row],
      hero_name_value = [], hero_name_cardReference = [], remove_hero_disabled = True\<rparr>"

definition loaded_page :: page where
  "loaded_page = page_load rendered_page"

text \<open>The page after the hero Sierra has been selected.\<close>

definition occupied_page :: page where
  "occupied_page =
     loaded_page\<lparr>hero_name_value := ''Sierra & Oddball'',
                 hero_name_cardReference := ''ALT_CORE_B_AX_01_C'',
                 remove_hero_disabled := False,
                 decklistChanges := [''ALT_CORE_B_AX_01_C'' \<mapsto> Num 1]\<rparr>"

text \<open>The page after the card Kelon Burst has been selected once.\<close>

definition kelon_page :: page where
  "kelon_page =
     loaded_page\<lparr>edit_deck_column := edit_deck_column loaded_page @
                   [template_row\<lparr>row_id := ''row-ALT_CORE_B_AX_08_C'', card_quantity := ''1'',
                      card_name := ''Kelon Burst'', remove_card_btn := True, add_card_btn := True,
                      row_hidden := False\<rparr>],
                 decklistChanges := [''ALT_CORE_B_AX_08_C'' \<mapsto> Num 1]\<rparr>"

text \<open>The same page after the increment control of the new row has been clicked once.\<close>

definition diverged_page :: page where
  "diverged_page =
     loaded_page\<lparr>edit_deck_column := edit_deck_column loaded_page @
                   [template_row\<lparr>row_id := ''row-ALT_CORE_B_AX_08_C'', card_quantity := ''2'',
                      card_name := ''Kelon Burst'', remove_card_btn := True, add_card_btn := True,
                      row_hidden := False\<rparr>],
                 decklistChanges := [''ALT_CORE_B_AX_08_C'' \<mapsto> Num 1]\<rparr>"

text \<open>A page rendered with a hero whose card reference is \<open>toString\<close>.\<close>

definition inherited_name_page :: page where
  "inherited_name_page =
     loaded_page\<lparr>hero_name_value := ''Sierra & Oddball'',
                 hero_name_cardReference := ''toString'',
                 remove_hero_disabled := False\<rparr>"

definition kelon :: card_display where
  "kelon = \<lparr>cardReference = ''ALT_CORE_B_AX_08_C'', cardName = ''Kelon Burst'',
             cardType = ''spell''\<rparr>"


definition sierra :: card_display where
  "sierra = \<lparr>cardReference = ''ALT_CORE_B_AX_01_C'', cardName = ''Sierra & Oddball'',
              cardType = ''hero''\<rparr>"

definition teija :: card_display where
  "teija = \<lparr>cardReference = ''ALT_CORE_B_MU_01_C'', cardName = ''Teija & Nauraa'',
             cardType = ''hero''\<rparr>"

definition ozma :: card_display where
  "ozma = \<lparr>cardReference = ''ALT_CORE_B_AX_10_C'', cardName = ''Ozma'',
            cardType = ''character''\<rparr>"

text \<open>A faction distribution, as the entries of the parsed object.\<close>

definition faction_distribution :: "(string \<times> int) list" where
  "faction_distribution = [(''axiom'', 3), (''bravos'', 7), (''lyra'', 3), (''muna'', 10)]"

section \<open>Numbers and their text: round trip\<close>

lemma is_digit_digit_char: "d < 10 \<Longrightarrow> is_digit (digit_char d)"
  by (simp add: is_digit_def digit_char_def)

lemma digit_val_digit_char: "d < 10 \<Longrightarrow> digit_val (digit_char d) = d"
  by (simp add: digit_val_def digit_char_def)

lemma digits_not_Nil: "digits n \<noteq> []"
  by (subst digits.simps) simp

lemma digits_all_digit: "list_all is_digit (digits n)"
proof (induction n rule: digits.induct)
  case (1 n)
  show ?case
  proof (cases "n < 10")
    case True
    then show ?thesis by (subst digits.simps) (simp add: is_digit_digit_char)
  next
    case False
    with 1 show ?thesis by (subst digits.simps) (simp add: is_digit_digit_char)
  qed
qed

lemma digits_value: "foldl (\<lambda>a c. 10 * a + digit_val c) 0 (digits n) = n"
proof (induction n rule: digits.induct)
  case (1 n)
  show ?case
  proof (cases "n < 10")
    case True
    then show ?thesis by (subst digits.simps) (simp add: digit_val_digit_char)
  next
    case False
    with 1 show ?thesis by (subst digits.simps) (simp add: digit_val_digit_char)
  qed
qed

lemma unsigned_digits: "unsigned (digits n) = Some n"
  by (simp add: unsigned_def digits_not_Nil digits_all_digit digits_value)

lemma digit_not_white: "is_digit c \<Longrightarrow> \<not> is_white c"
  by (auto simp: is_digit_def is_white_def)

lemma trim_id: "list_all (\<lambda>c. \<not> is_white c) s \<Longrightarrow> trim s = s"
proof -
  assume a: "list_all (\<lambda>c. \<not> is_white c) s"
  then have 1: "dropWhile is_white s = s"
    by (cases s) simp_all
  from a have "list_all (\<lambda>c. \<not> is_white c) (rev s)" by (simp add: list_all_iff)
  then have "dropWhile is_white (rev s) = rev s"
    by (cases "rev s") simp_all
  with 1 show ?thesis by (simp add: trim_def)
qed

lemma digits_no_white: "list_all (\<lambda>c. \<not> is_white c) (digits n)"
  using digits_all_digit [of n] by (auto simp: list_all_iff digit_not_white)

lemma digits_hd: "digits n = c # r \<Longrightarrow> is_digit c"
  using digits_all_digit [of n] by simp

lemma Number_ToString: "Number (ToString x) = x"
proof (cases x)
  case NaN
  show ?thesis unfolding NaN by (simp add: Number_def trim_def is_white_def unsigned_def is_digit_def)
next
  case (Num i)
  show ?thesis
  proof (cases "i < 0")
    case True
    have "trim (CHR ''-'' # digits (nat (- i))) = CHR ''-'' # digits (nat (- i))"
      using digits_no_white by (intro trim_id) (simp add: is_white_def)
    then show ?thesis using True unfolding Num by (simp add: Number_def unsigned_digits)
  next
    case False
    obtain c r where cr: "digits (nat i) = c # r"
      using digits_not_Nil [of "nat i"] by (cases "digits (nat i)") auto
    have d: "is_digit c" using cr by (rule digits_hd)
    then have ne: "c \<noteq> CHR ''-''" "c \<noteq> CHR ''+''" by (auto simp: is_digit_def)
    have t: "trim (c # r) = c # r" using trim_id [OF digits_no_white, of "nat i"] cr by simp
    have u: "unsigned (c # r) = Some (nat i)" using unsigned_digits [of "nat i"] cr by simp
    show ?thesis using False ne unfolding Num by (simp add: Number_def t cr u)
  qed
qed

lemma ToString_1: "ToString (Num 1) = ''1''"
  by code_simp

lemma getElementById_Some:
  "getElementById x rows = Some i \<Longrightarrow> i < length rows \<and> row_id (rows ! i) = x"
  by (induction rows arbitrary: i) (auto split: if_splits)




lemma select_new:
  assumes "cardType c \<noteq> ''hero''"
    and "getElementById (''row-'' @ cardReference c) (edit_deck_column s) = None"
    and "edit_deck_column s \<noteq> []"
  shows "card_display_click c s =
     Inr (s\<lparr>edit_deck_column := edit_deck_column s @
               [(cloneNode (last (edit_deck_column s)))
                  \<lparr>row_id := ''row-'' @ cardReference c, card_quantity := ''1'',
                   card_name := cardName c, remove_card_btn := True, add_card_btn := True,
                   row_hidden := False\<rparr>],
            decklistChanges := (decklistChanges s)(cardReference c \<mapsto> Num 1)\<rparr>)"
  using assms by (simp add: card_display_click_def Let_def ToString_1 del: ToString.simps)




section \<open>Invariants of the deck column are kept by every click\<close>








lemma positive_not_negative: "number_greater v 0 \<Longrightarrow> not_negative v"
  by (cases v) simp_all

lemma number_greater_plus: "not_negative v \<Longrightarrow> truthy v \<Longrightarrow> number_greater (number_plus v 1) 0"
  by (cases v) simp_all

lemma number_greater_plus': "number_greater v 0 \<Longrightarrow> number_greater (number_plus v 1) 0"
  by (cases v) simp_all

lemma not_negative_plus: "not_negative v \<Longrightarrow> not_negative (number_plus v 1)"
  by (cases v) simp_all

lemma or_else_cases:
  "or_else (m k) d = d \<or> (\<exists>v. m k = Some v \<and> truthy v \<and> or_else (m k) d = v)"
  by (cases "m k") auto

lemma or_else_not_negative:
  assumes "changes_not_negative m" and "not_negative d"
  shows "not_negative (number_plus (or_else (m k) d) 1)"
  using or_else_cases [of m k d] assms
  by (auto simp: changes_not_negative_def not_negative_plus)

lemma or_else_positive:
  assumes "changes_not_negative m" and "number_greater d 0"
  shows "number_greater (number_plus (or_else (m k) d) 1) 0"
  using or_else_cases [of m k d] assms
  by (auto simp: changes_not_negative_def number_greater_plus number_greater_plus')

lemma quantities_positive_update:
  "quantities_positive rows \<Longrightarrow>
   (if row_hidden r then not_negative (Number (card_quantity r))
    else number_greater (Number (card_quantity r)) 0) \<Longrightarrow>
   quantities_positive (rows[i := r])"
  unfolding quantities_positive_def list_all_iff
  by (blast dest: set_update_subset_insert [THEN subsetD])

lemma quantities_positive_remove:
  "quantities_positive rows \<Longrightarrow> quantities_positive (take i rows @ drop (Suc i) rows)"
  by (auto simp: quantities_positive_def list_all_iff dest: in_set_takeD in_set_dropD)

lemma quantities_positive_nth:
  "quantities_positive rows \<Longrightarrow> i < length rows \<Longrightarrow>
   (if row_hidden (rows ! i) then not_negative (Number (card_quantity (rows ! i)))
    else number_greater (Number (card_quantity (rows ! i))) 0)"
  by (simp add: quantities_positive_def list_all_length)

lemma quantities_positive_append:
  "quantities_positive rows \<Longrightarrow>
   (if row_hidden r then not_negative (Number (card_quantity r))
    else number_greater (Number (card_quantity r)) 0) \<Longrightarrow>
   quantities_positive (rows @ [r])"
  by (simp add: quantities_positive_def)

lemma Number_1: "Number ''1'' = Num 1"
  using Number_ToString [of "Num 1"] by (simp only: ToString_1)

lemma quantities_positive_decrease:
  assumes "quantities_positive (edit_deck_column s)"
    and "i < length (edit_deck_column s)" and "\<not> row_hidden (edit_deck_column s ! i)"
  shows "quantities_positive (edit_deck_column (decreaseCardQuantity i s))"
proof (cases "number_greater (number_minus (Number (card_quantity (edit_deck_column s ! i))) 1) 0")
  case True
  have "quantities_positive ((edit_deck_column s)[i := (edit_deck_column s ! i)\<lparr>card_quantity :=
           ToString (number_minus (Number (card_quantity (edit_deck_column s ! i))) 1)\<rparr>])"
    using True assms(3)
    by (intro quantities_positive_update [OF assms(1)]) (simp add: Number_ToString del: ToString.simps)
  with True assms(2) show ?thesis
    by (simp add: decreaseCardQuantity_def Let_def del: ToString.simps)
next
  case False
  with assms(2) quantities_positive_remove [OF assms(1), of i] show ?thesis
    by (simp add: decreaseCardQuantity_def Let_def)
qed

lemma quantities_positive_increase:
  assumes "quantities_positive (edit_deck_column s)"
    and "i < length (edit_deck_column s)" and "\<not> row_hidden (edit_deck_column s ! i)"
  shows "quantities_positive (edit_deck_column (increaseCardQuantity i s))"
proof -
  from quantities_positive_nth [OF assms(1,2)] assms(3)
  have "number_greater (Number (card_quantity (edit_deck_column s ! i))) 0" by simp
  then have "quantities_positive ((edit_deck_column s)[i := (edit_deck_column s ! i)\<lparr>card_quantity :=
           ToString (number_plus (Number (card_quantity (edit_deck_column s ! i))) 1)\<rparr>])"
    using assms(3)
    by (intro quantities_positive_update [OF assms(1)])
       (simp add: Number_ToString number_greater_plus' del: ToString.simps)
  with assms(2) show ?thesis
    by (simp add: increaseCardQuantity_def Let_def del: ToString.simps)
qed

lemma changes_not_negative_update:
  "changes_not_negative m \<Longrightarrow> not_negative v \<Longrightarrow> changes_not_negative (m(k \<mapsto> v))"
  by (auto simp: changes_not_negative_def)

lemma changes_not_negative_delete:
  "changes_not_negative m \<Longrightarrow> changes_not_negative (m(k := None))"
  by (auto simp: changes_not_negative_def)

lemma positive_select:
  assumes "quantities_positive (edit_deck_column s)"
    and "changes_not_negative (decklistChanges s)"
    and "card_display_click c s = Inr s'"
  shows "quantities_positive (edit_deck_column s') \<and> changes_not_negative (decklistChanges s')"
proof (cases "cardType c = ''hero''")
  case True
  with assms show ?thesis
    by (auto simp: card_display_click_def changes_not_negative_update split: if_splits)
next
  case False
  show ?thesis
  proof (cases "getElementById (''row-'' @ cardReference c) (edit_deck_column s)")
    case None
    show ?thesis
    proof (cases "edit_deck_column s = []")
      case True
      with assms(3) False None show ?thesis by (simp add: card_display_click_def)
    next
      case ne: False
      from select_new [OF False None ne] assms(3)
      have s': "s' = s\<lparr>edit_deck_column := edit_deck_column s @
               [(cloneNode (last (edit_deck_column s)))
                  \<lparr>row_id := ''row-'' @ cardReference c, card_quantity := ''1'',
                   card_name := cardName c, remove_card_btn := True, add_card_btn := True,
                   row_hidden := False\<rparr>],
            decklistChanges := (decklistChanges s)(cardReference c \<mapsto> Num 1)\<rparr>"
        by simp
      show ?thesis
        unfolding s' using assms(1,2)
        by (simp add: quantities_positive_append changes_not_negative_update Number_1)
    qed
  next
    case (Some i)
    from getElementById_Some [OF Some] have i: "i < length (edit_deck_column s)" by simp
    let ?q = "number_plus (or_else (decklistChanges s (cardReference c))
                 (Number (card_quantity (edit_deck_column s ! i)))) 1"
    from assms(3) False Some
    have s': "s' = s\<lparr>decklistChanges := (decklistChanges s)(cardReference c \<mapsto> ?q),
                      edit_deck_column := (edit_deck_column s)
                         [i := (edit_deck_column s ! i)\<lparr>card_quantity := ToString ?q\<rparr>]\<rparr>"
      by (auto simp: card_display_click_def Let_def)
    from quantities_positive_nth [OF assms(1) i]
    have d: "not_negative (Number (card_quantity (edit_deck_column s ! i)))"
      by (auto simp: positive_not_negative split: if_splits)
    have n: "not_negative ?q" by (rule or_else_not_negative [OF assms(2) d])
    have p: "\<not> row_hidden (edit_deck_column s ! i) \<Longrightarrow> number_greater ?q 0"
      using quantities_positive_nth [OF assms(1) i] or_else_positive [OF assms(2)] by simp
    have "quantities_positive ((edit_deck_column s)
                         [i := (edit_deck_column s ! i)\<lparr>card_quantity := ToString ?q\<rparr>])"
      using n p by (intro quantities_positive_update [OF assms(1)])
        (simp add: Number_ToString del: ToString.simps)
    then show ?thesis
      unfolding s' using changes_not_negative_update [OF assms(2) n] by simp
  qed
qed

lemma positive_dispatch:
  assumes "quantities_positive (edit_deck_column s)"
    and "changes_not_negative (decklistChanges s)"
    and "dispatch e s = Inr s'"
  shows "quantities_positive (edit_deck_column s') \<and> changes_not_negative (decklistChanges s')"
proof (cases e)
  case (CardDisplay c)
  with assms(3) have "card_display_click c s = Inr s'" by simp
  from positive_select [OF assms(1,2) this] show ?thesis .
next
  case (RemoveCardBtn i)
  show ?thesis
  proof (cases "i < length (edit_deck_column s) \<and> \<not> row_hidden (edit_deck_column s ! i)
         \<and> remove_card_btn (edit_deck_column s ! i)")
    case True
    with assms(3) RemoveCardBtn have s': "s' = decreaseCardQuantity i s" by simp
    have "decklistChanges (decreaseCardQuantity i s) = decklistChanges s"
      by (simp add: decreaseCardQuantity_def Let_def)
    with quantities_positive_decrease [OF assms(1), of i] True assms(2) show ?thesis
      unfolding s' by simp
  next
    case False
    with assms RemoveCardBtn show ?thesis by auto
  qed
next
  case (AddCardBtn i)
  show ?thesis
  proof (cases "i < length (edit_deck_column s) \<and> \<not> row_hidden (edit_deck_column s ! i)
         \<and> add_card_btn (edit_deck_column s ! i)")
    case True
    with assms(3) AddCardBtn have s': "s' = increaseCardQuantity i s" by simp
    have "decklistChanges (increaseCardQuantity i s) = decklistChanges s"
      by (simp add: increaseCardQuantity_def Let_def)
    with quantities_positive_increase [OF assms(1), of i] True assms(2) show ?thesis
      unfolding s' by simp
  next
    case False
    with assms AddCardBtn show ?thesis by auto
  qed
next
  case RemoveHero
  show ?thesis
  proof (cases "remove_hero_disabled s")
    case True
    with assms RemoveHero show ?thesis by simp
  next
    case False
    with assms(3) RemoveHero have s': "s' = remove_hero_click s" by simp
    show ?thesis
      unfolding s' using assms(1,2)
      by (simp add: remove_hero_click_def Let_def changes_not_negative_update
            changes_not_negative_delete)
  qed
qed

lemma positive_run:
  "quantities_positive (edit_deck_column s) \<Longrightarrow> changes_not_negative (decklistChanges s) \<Longrightarrow>
   run es s = Inr s' \<Longrightarrow>
   quantities_positive (edit_deck_column s') \<and> changes_not_negative (decklistChanges s')"
proof (induction es arbitrary: s)
  case Nil
  then show ?case by simp
next
  case (Cons e es)
  from Cons.prems(3) obtain s1 where d: "dispatch e s = Inr s1" and r: "run es s1 = Inr s'"
    by (auto split: sum.splits)
  from positive_dispatch [OF Cons.prems(1,2) d] Cons.IH [OF _ _ r] show ?case by blast
qed

section \<open>Selecting a card\<close>



subsection \<open>The example pages\<close>

lemma ToString_2: "ToString (Num 2) = ''2''"
  by code_simp

lemma Number_2: "Number ''2'' = Num 2"
  using Number_ToString [of "Num 2"] by (simp only: ToString_2)

lemma kelon_selected: "card_display_click kelon loaded_page = Inr kelon_page"
  by (simp add: kelon_page_def loaded_page_def kelon_def card_display_click_def page_load_def
        rendered_page_def template_row_def cloneNode_def Let_def ToString_1 del: ToString.simps)

lemma kelon_increased: "increaseCardQuantity 2 kelon_page = diverged_page"
  by (simp add: kelon_page_def diverged_page_def loaded_page_def page_load_def
        rendered_page_def template_row_def increaseCardQuantity_def Let_def Number_1 ToString_2
        del: ToString.simps)





lemma clone_fields:
  "(cloneNode r)\<lparr>row_id := a, card_quantity := b, card_name := c, remove_card_btn := d,
                 add_card_btn := e, row_hidden := f\<rparr> =
   \<lparr>row_id = a, row_hidden = f, card_quantity = b, card_name = c, remove_card_btn = d,
    add_card_btn = e, row_markup = row_markup r\<rparr>"
  by (cases r) (simp add: cloneNode_def)



text \<open>
  Every click leaves the column as it is, changes the quantity text of one row in
  place, removes one row, or appends one shown row: the order of the rows never
  changes, and a row that comes later in the column was inserted later.
\<close>

lemma column_step:
  assumes "dispatch e s = Inr s'"
  shows "edit_deck_column s' = edit_deck_column s
     \<or> (\<exists>i q. i < length (edit_deck_column s)
            \<and> edit_deck_column s' =
                (edit_deck_column s)[i := (edit_deck_column s ! i)\<lparr>card_quantity := q\<rparr>])
     \<or> (\<exists>i. i < length (edit_deck_column s)
            \<and> edit_deck_column s' = take i (edit_deck_column s) @ drop (Suc i) (edit_deck_column s))
     \<or> (\<exists>new. edit_deck_column s' = edit_deck_column s @ [new] \<and> \<not> row_hidden new)"
proof (cases e)
  case (CardDisplay c)
  show ?thesis
  proof (cases "cardType c = ''hero''")
    case True
    with assms CardDisplay show ?thesis
      by (auto simp: card_display_click_def split: if_splits)
  next
    case False
    show ?thesis
    proof (cases "getElementById (''row-'' @ cardReference c) (edit_deck_column s)")
      case None
      show ?thesis
      proof (cases "edit_deck_column s = []")
        case True
        with assms CardDisplay False None show ?thesis by (simp add: card_display_click_def)
      next
        case ne: False
        from select_new [OF False None ne] assms CardDisplay show ?thesis by auto
      qed
    next
      case (Some i)
      from getElementById_Some [OF Some] have i: "i < length (edit_deck_column s)" by simp
      from assms CardDisplay False Some
      have "\<exists>q. edit_deck_column s' =
         (edit_deck_column s)[i := (edit_deck_column s ! i)\<lparr>card_quantity := q\<rparr>]"
        by (auto simp: card_display_click_def Let_def)
      with i show ?thesis by blast
    qed
  qed
next
  case (RemoveCardBtn i)
  show ?thesis
  proof (cases "i < length (edit_deck_column s) \<and> \<not> row_hidden (edit_deck_column s ! i)
         \<and> remove_card_btn (edit_deck_column s ! i)")
    case True
    with assms RemoveCardBtn have s': "s' = decreaseCardQuantity i s" by simp
    show ?thesis
    proof (cases "number_greater (number_minus (Number (card_quantity (edit_deck_column s ! i))) 1) 0")
      case w: True
      with True have "edit_deck_column s' = (edit_deck_column s)[i := (edit_deck_column s ! i)
          \<lparr>card_quantity := ToString (number_minus (Number (card_quantity (edit_deck_column s ! i))) 1)\<rparr>]"
        unfolding s' by (simp add: decreaseCardQuantity_def Let_def del: ToString.simps)
      with True show ?thesis by blast
    next
      case r: False
      with True have "edit_deck_column s' = take i (edit_deck_column s) @ drop (Suc i) (edit_deck_column s)"
        unfolding s' by (simp add: decreaseCardQuantity_def Let_def)
      with True show ?thesis by blast
    qed
  next
    case False
    with assms RemoveCardBtn show ?thesis by auto
  qed
next
  case (AddCardBtn i)
  show ?thesis
  proof (cases "i < length (edit_deck_column s) \<and> \<not> row_hidden (edit_deck_column s ! i)
         \<and> add_card_btn (edit_deck_column s ! i)")
    case True
    with assms AddCardBtn have s': "s' = increaseCardQuantity i s" by simp
    from True have "edit_deck_column s' = (edit_deck_column s)[i := (edit_deck_column s ! i)
          \<lparr>card_quantity := ToString (number_plus (Number (card_quantity (edit_deck_column s ! i))) 1)\<rparr>]"
      unfolding s' by (simp add: increaseCardQuantity_def Let_def del: ToString.simps)
    with True show ?thesis by blast
  next
    case False
    with assms AddCardBtn show ?thesis by auto
  qed
next
  case RemoveHero
  with assms show ?thesis
    by (auto simp: remove_hero_click_def Let_def split: if_splits)
qed

text \<open>
  While the last child of the column is a shown row, it stays one under every click
  but the one that removes the last of the shown rows at the end of the column.
\<close>

lemma last_shown_dispatch:
  assumes "edit_deck_column s \<noteq> []" and "\<not> row_hidden (last (edit_deck_column s))"
    and "\<not> removes_last_shown e s" and "dispatch e s = Inr s'"
  shows "edit_deck_column s' \<noteq> [] \<and> \<not> row_hidden (last (edit_deck_column s'))"
proof -
  have upd: "rows \<noteq> [] \<Longrightarrow> \<not> row_hidden (last rows) \<Longrightarrow> i < length rows \<Longrightarrow>
      rows[i := (rows ! i)\<lparr>card_quantity := q\<rparr>] \<noteq> []
      \<and> \<not> row_hidden (last (rows[i := (rows ! i)\<lparr>card_quantity := q\<rparr>]))"
    for rows :: "row list" and i q
    by (cases "i = length rows - 1") (simp_all add: last_conv_nth)
  show ?thesis
  proof (cases e)
    case (CardDisplay c)
    show ?thesis
    proof (cases "cardType c = ''hero''")
      case True
      with assms CardDisplay show ?thesis
        by (auto simp: card_display_click_def split: if_splits)
    next
      case False
      show ?thesis
      proof (cases "getElementById (''row-'' @ cardReference c) (edit_deck_column s)")
        case None
        from select_new [OF False None assms(1)] assms(4) CardDisplay show ?thesis by auto
      next
        case (Some i)
        from getElementById_Some [OF Some] have i: "i < length (edit_deck_column s)" by simp
        from assms(4) CardDisplay False Some
        have "\<exists>q. edit_deck_column s' =
           (edit_deck_column s)[i := (edit_deck_column s ! i)\<lparr>card_quantity := q\<rparr>]"
          by (auto simp: card_display_click_def Let_def)
        then obtain q where eq: "edit_deck_column s' =
           (edit_deck_column s)[i := (edit_deck_column s ! i)\<lparr>card_quantity := q\<rparr>]" ..
        show ?thesis unfolding eq by (rule upd [OF assms(1,2) i])
      qed
    qed
  next
    case (RemoveCardBtn i)
    let ?rows = "edit_deck_column s"
    show ?thesis
    proof (cases "i < length ?rows \<and> \<not> row_hidden (?rows ! i) \<and> remove_card_btn (?rows ! i)")
      case True
      with assms(4) RemoveCardBtn have s': "s' = decreaseCardQuantity i s" by simp
      show ?thesis
      proof (cases "number_greater (number_minus (Number (card_quantity (?rows ! i))) 1) 0")
        case w: True
        with True have eq: "edit_deck_column s' = ?rows[i := (?rows ! i)
            \<lparr>card_quantity := ToString (number_minus (Number (card_quantity (?rows ! i))) 1)\<rparr>]"
          unfolding s' by (simp add: decreaseCardQuantity_def Let_def del: ToString.simps)
        from True have i: "i < length ?rows" by simp
        show ?thesis unfolding eq by (rule upd [OF assms(1,2) i])
      next
        case r: False
        with True have eq: "edit_deck_column s' = take i ?rows @ drop (Suc i) ?rows"
          unfolding s' by (simp add: decreaseCardQuantity_def Let_def)
        show ?thesis
        proof (cases "Suc i = length ?rows")
          case False
          with True have d: "drop (Suc i) ?rows \<noteq> []" by simp
          then have "last (take i ?rows @ drop (Suc i) ?rows) = last ?rows"
            by (simp add: last_drop)
          with d assms(2) show ?thesis unfolding eq by simp
        next
          case last: True
          with assms(3) RemoveCardBtn True r
          have p: "i \<noteq> 0" and v: "\<not> row_hidden (?rows ! (i - 1))"
            by (simp_all add: Let_def)
          from last have eq': "edit_deck_column s' = take i ?rows" unfolding eq by simp
          from p last have ne: "take i ?rows \<noteq> []" by auto
          from ne p last have "last (take i ?rows) = ?rows ! (i - 1)"
            by (simp add: last_conv_nth min_def)
          with ne v show ?thesis unfolding eq' by simp
        qed
      qed
    next
      case False
      with assms RemoveCardBtn show ?thesis by auto
    qed
  next
    case (AddCardBtn i)
    show ?thesis
    proof (cases "i < length (edit_deck_column s) \<and> \<not> row_hidden (edit_deck_column s ! i)
           \<and> add_card_btn (edit_deck_column s ! i)")
      case True
      with assms(4) AddCardBtn have s': "s' = increaseCardQuantity i s" by simp
      from True have eq: "edit_deck_column s' = (edit_deck_column s)[i := (edit_deck_column s ! i)
          \<lparr>card_quantity := ToString (number_plus (Number (card_quantity (edit_deck_column s ! i))) 1)\<rparr>]"
        unfolding s' by (simp add: increaseCardQuantity_def Let_def del: ToString.simps)
      from True have i: "i < length (edit_deck_column s)" by simp
      show ?thesis unfolding eq by (rule upd [OF assms(1,2) i])
    next
      case False
      with assms AddCardBtn show ?thesis by auto
    qed
  next
    case RemoveHero
    with assms show ?thesis
      by (auto simp: remove_hero_click_def Let_def split: if_splits)
  qed
qed

lemma last_shown_run:
  "edit_deck_column s \<noteq> [] \<Longrightarrow> \<not> row_hidden (last (edit_deck_column s)) \<Longrightarrow>
   spares_last_shown es s \<Longrightarrow> run es s = Inr s' \<Longrightarrow>
   edit_deck_column s' \<noteq> [] \<and> \<not> row_hidden (last (edit_deck_column s'))"
proof (induction es arbitrary: s)
  case Nil
  then show ?case by simp
next
  case (Cons e es)
  from Cons.prems(4) obtain s1 where d: "dispatch e s = Inr s1" and r: "run es s1 = Inr s'"
    by (auto split: sum.splits)
  from Cons.prems(3) d have e: "\<not> removes_last_shown e s" and es: "spares_last_shown es s1"
    by simp_all
  from last_shown_dispatch [OF Cons.prems(1,2) e d]
  have 1: "edit_deck_column s1 \<noteq> []" "\<not> row_hidden (last (edit_deck_column s1))"
    by simp_all
  from Cons.IH [OF 1 es r] show ?case .
qed

text \<open>
  C10 (as amended). Every new-row creation clones the current last element child of the
  deck column, keeping its markup, and appends the clone, so right after a new-card
  insertion the last child is the row just inserted, which is shown. The last child
  stays a shown row (rows are only appended, changed in place or removed, so it is the
  most recently inserted row still in the column) until a click on a decrement control
  removes the last of the shown rows at the end of the column; up to then every
  new-card selection clones that shown last child.
\<close>

theorem clone_of_last_child:
  assumes "cardType c \<noteq> ''hero''"
    and "getElementById (''row-'' @ cardReference c) (edit_deck_column s) = None"
    and "edit_deck_column s \<noteq> []"
  shows "\<exists>s'. card_display_click c s = Inr s'
     \<and> edit_deck_column s' = edit_deck_column s @
          [\<lparr>row_id = ''row-'' @ cardReference c, row_hidden = False,
            card_quantity = ''1'', card_name = cardName c, remove_card_btn = True,
            add_card_btn = True, row_markup = row_markup (last (edit_deck_column s))\<rparr>]
     \<and> \<not> row_hidden (last (edit_deck_column s'))
     \<and> (\<forall>es s'' c'. spares_last_shown es s' \<and> run es s' = Inr s''
            \<and> cardType c' \<noteq> ''hero''
            \<and> getElementById (''row-'' @ cardReference c') (edit_deck_column s'') = None \<longrightarrow>
          edit_deck_column s'' \<noteq> []
          \<and> \<not> row_hidden (last (edit_deck_column s''))
          \<and> (\<exists>s3. card_display_click c' s'' = Inr s3
               \<and> edit_deck_column s3 = edit_deck_column s'' @
                   [\<lparr>row_id = ''row-'' @ cardReference c', row_hidden = False,
                     card_quantity = ''1'', card_name = cardName c', remove_card_btn = True,
                     add_card_btn = True,
                     row_markup = row_markup (last (edit_deck_column s''))\<rparr>]))
     \<and> (\<forall>e t t'. dispatch e t = Inr t' \<longrightarrow>
          edit_deck_column t' = edit_deck_column t
          \<or> (\<exists>i q. i < length (edit_deck_column t)
                \<and> edit_deck_column t' =
                    (edit_deck_column t)[i := (edit_deck_column t ! i)\<lparr>card_quantity := q\<rparr>])
          \<or> (\<exists>i. i < length (edit_deck_column t)
                \<and> edit_deck_column t' =
                    take i (edit_deck_column t) @ drop (Suc i) (edit_deck_column t))
          \<or> (\<exists>new. edit_deck_column t' = edit_deck_column t @ [new] \<and> \<not> row_hidden new))"
proof -
  define s' where "s' = s\<lparr>edit_deck_column := edit_deck_column s @
               [(cloneNode (last (edit_deck_column s)))
                  \<lparr>row_id := ''row-'' @ cardReference c, card_quantity := ''1'',
                   card_name := cardName c, remove_card_btn := True, add_card_btn := True,
                   row_hidden := False\<rparr>],
            decklistChanges := (decklistChanges s)(cardReference c \<mapsto> Num 1)\<rparr>"
  have 1: "card_display_click c s = Inr s'"
    unfolding s'_def by (rule select_new [OF assms(1-3)])
  have 2: "edit_deck_column s' = edit_deck_column s @
          [\<lparr>row_id = ''row-'' @ cardReference c, row_hidden = False,
            card_quantity = ''1'', card_name = cardName c, remove_card_btn = True,
            add_card_btn = True, row_markup = row_markup (last (edit_deck_column s))\<rparr>]"
    by (simp add: s'_def clone_fields)
  have ne: "edit_deck_column s' \<noteq> []" and 3: "\<not> row_hidden (last (edit_deck_column s'))"
    by (simp_all add: s'_def)
  have 4: "edit_deck_column s'' \<noteq> []
          \<and> \<not> row_hidden (last (edit_deck_column s''))
          \<and> (\<exists>s3. card_display_click c' s'' = Inr s3
               \<and> edit_deck_column s3 = edit_deck_column s'' @
                   [\<lparr>row_id = ''row-'' @ cardReference c', row_hidden = False,
                     card_quantity = ''1'', card_name = cardName c', remove_card_btn = True,
                     add_card_btn = True,
                     row_markup = row_markup (last (edit_deck_column s''))\<rparr>])"
    if h: "spares_last_shown es s' \<and> run es s' = Inr s''
            \<and> cardType c' \<noteq> ''hero''
            \<and> getElementById (''row-'' @ cardReference c') (edit_deck_column s'') = None"
    for es s'' c'
  proof -
    from h have es: "spares_last_shown es s'" and r: "run es s' = Inr s''"
      and c': "cardType c' \<noteq> ''hero''"
      and g: "getElementById (''row-'' @ cardReference c') (edit_deck_column s'') = None"
      by simp_all
    from last_shown_run [OF ne 3 es r]
    have a: "edit_deck_column s'' \<noteq> []" and b: "\<not> row_hidden (last (edit_deck_column s''))"
      by simp_all
    from select_new [OF c' g a] a b show ?thesis by (simp add: clone_fields)
  qed
  from 1 2 3 4 column_step show ?thesis by blast
qed

lemma diverged_decreased: "decreaseCardQuantity 2 diverged_page = kelon_page"
  by (simp add: kelon_page_def diverged_page_def loaded_page_def page_load_def
        rendered_page_def template_row_def decreaseCardQuantity_def Let_def Number_2 ToString_1
        del: ToString.simps)

text \<open>
  The amended statement on the example page: a new card, a click on the increment
  control of its row and one on its decrement control, which writes the quantity back
  and removes nothing, then another new card, whose row takes the markup of the row of
  the first.
\<close>

theorem clone_of_last_child_witness:
  "cardType kelon \<noteq> ''hero''
   \<and> getElementById (''row-'' @ cardReference kelon) (edit_deck_column loaded_page) = None
   \<and> edit_deck_column loaded_page \<noteq> []
   \<and> card_display_click kelon loaded_page = Inr kelon_page
   \<and> spares_last_shown [AddCardBtn 2, RemoveCardBtn 2] kelon_page
   \<and> run [AddCardBtn 2, RemoveCardBtn 2] kelon_page = Inr kelon_page
   \<and> cardType ozma \<noteq> ''hero''
   \<and> getElementById (''row-'' @ cardReference ozma) (edit_deck_column kelon_page) = None
   \<and> \<not> row_hidden (last (edit_deck_column kelon_page))
   \<and> (\<exists>s3. card_display_click ozma kelon_page = Inr s3
         \<and> edit_deck_column s3 = edit_deck_column kelon_page @
               [\<lparr>row_id = ''row-'' @ cardReference ozma, row_hidden = False,
                 card_quantity = ''1'', card_name = cardName ozma, remove_card_btn = True,
                 add_card_btn = True,
                 row_markup = row_markup (last (edit_deck_column kelon_page))\<rparr>])"
proof -
  have h1: "cardType kelon \<noteq> ''hero''" by (simp add: kelon_def)
  have h2: "getElementById (''row-'' @ cardReference kelon) (edit_deck_column loaded_page) = None"
    by (simp add: kelon_def loaded_page_def page_load_def rendered_page_def template_row_def)
  have h3: "edit_deck_column loaded_page \<noteq> []"
    by (simp add: loaded_page_def page_load_def rendered_page_def)
  have d1: "dispatch (AddCardBtn 2) kelon_page = Inr diverged_page"
    using kelon_increased
    by (simp add: kelon_page_def loaded_page_def page_load_def rendered_page_def template_row_def)
  have d2: "dispatch (RemoveCardBtn 2) diverged_page = Inr kelon_page"
    using diverged_decreased
    by (simp add: diverged_page_def loaded_page_def page_load_def rendered_page_def
          template_row_def)
  have n1: "\<not> removes_last_shown (AddCardBtn 2) kelon_page" by simp
  have n2: "\<not> removes_last_shown (RemoveCardBtn 2) diverged_page"
    by (simp add: diverged_page_def loaded_page_def page_load_def rendered_page_def
          template_row_def Let_def Number_2)
  have "spares_last_shown [RemoveCardBtn 2] diverged_page"
    using n2 by (simp add: d2 del: removes_last_shown.simps dispatch.simps)
  with n1 have h4: "spares_last_shown [AddCardBtn 2, RemoveCardBtn 2] kelon_page"
    by (simp add: d1 del: removes_last_shown.simps dispatch.simps)
  have h5: "run [AddCardBtn 2, RemoveCardBtn 2] kelon_page = Inr kelon_page"
    by (simp add: d1 d2 del: dispatch.simps)
  have h6: "cardType ozma \<noteq> ''hero''" by (simp add: ozma_def)
  have h7: "getElementById (''row-'' @ cardReference ozma) (edit_deck_column kelon_page) = None"
    by (simp add: ozma_def kelon_page_def loaded_page_def page_load_def rendered_page_def
          template_row_def)
  from clone_of_last_child [OF h1 h2 h3] kelon_selected
  have "\<forall>es s'' c'. spares_last_shown es kelon_page \<and> run es kelon_page = Inr s''
            \<and> cardType c' \<noteq> ''hero''
            \<and> getElementById (''row-'' @ cardReference c') (edit_deck_column s'') = None \<longrightarrow>
          edit_deck_column s'' \<noteq> []
          \<and> \<not> row_hidden (last (edit_deck_column s''))
          \<and> (\<exists>s3. card_display_click c' s'' = Inr s3
               \<and> edit_deck_column s3 = edit_deck_column s'' @
                   [\<lparr>row_id = ''row-'' @ cardReference c', row_hidden = False,
                     card_quantity = ''1'', card_name = cardName c', remove_card_btn = True,
                     add_card_btn = True,
                     row_markup = row_markup (last (edit_deck_column s''))\<rparr>])"
    by auto
  from this h4 h5 h6 h7
  have "\<not> row_hidden (last (edit_deck_column kelon_page))
          \<and> (\<exists>s3. card_display_click ozma kelon_page = Inr s3
               \<and> edit_deck_column s3 = edit_deck_column kelon_page @
                   [\<lparr>row_id = ''row-'' @ cardReference ozma, row_hidden = False,
                     card_quantity = ''1'', card_name = cardName ozma, remove_card_btn = True,
                     add_card_btn = True,
                     row_markup = row_markup (last (edit_deck_column kelon_page))\<rparr>])"
    by blast
  with h1 h2 h3 h4 h5 h6 h7 kelon_selected show ?thesis by blast
qed

text \<open>
  C10 as stated fails when the only inserted row is removed again: after a new-card
  insertion, one click on the decrement control of the new row removes it, this being
  the click that the amended statement excludes, and the last child of the column is
  the hidden template row once more.
\<close>

theorem last_child_counterexample:
  "removes_last_shown (RemoveCardBtn 2) kelon_page
   \<and> (case run [CardDisplay kelon, RemoveCardBtn 2] loaded_page of
        Inl f \<Rightarrow> False
      | Inr s \<Rightarrow> row_hidden (last (edit_deck_column s))
                \<and> row_id (last (edit_deck_column s)) = ''row-template'')"
  by code_simp

section \<open>The quantity controls\<close>

lemma set_remove_nth: "set (take i xs @ drop (Suc i) xs) \<subseteq> set xs"
  by (auto dest: in_set_takeD in_set_dropD)

text \<open>
  C5. A click on the decrement control of a row that shows q writes back q - 1 when that
  is positive and removes the row from the deck column otherwise; every row of the
  column afterwards is an untouched row or shows a positive quantity. On a page whose
  shown rows are positive and whose change-set has no negative entry, no sequence of
  clicks leads to a shown row with a quantity that is 0 or negative.
\<close>

theorem decrease_writes_or_removes:
  assumes "i < length (edit_deck_column s)"
    and "Number (card_quantity (edit_deck_column s ! i)) = Num q"
  shows "(0 < q - 1 \<longrightarrow>
            edit_deck_column (decreaseCardQuantity i s) =
              (edit_deck_column s)[i := (edit_deck_column s ! i)\<lparr>card_quantity := ToString (Num (q - 1))\<rparr>]
            \<and> Number (card_quantity (edit_deck_column (decreaseCardQuantity i s) ! i)) = Num (q - 1))
       \<and> (q - 1 \<le> 0 \<longrightarrow>
            edit_deck_column (decreaseCardQuantity i s) =
              take i (edit_deck_column s) @ drop (Suc i) (edit_deck_column s))
       \<and> (\<forall>r \<in> set (edit_deck_column (decreaseCardQuantity i s)).
             r \<in> set (edit_deck_column s) \<or> number_greater (Number (card_quantity r)) 0)
       \<and> (\<forall>es s'. quantities_positive (edit_deck_column s)
              \<and> changes_not_negative (decklistChanges s) \<and> run es s = Inr s' \<longrightarrow>
            quantities_positive (edit_deck_column s'))"
proof (intro conjI impI allI)
  assume "0 < q - 1"
  then show "edit_deck_column (decreaseCardQuantity i s) =
              (edit_deck_column s)[i := (edit_deck_column s ! i)\<lparr>card_quantity := ToString (Num (q - 1))\<rparr>]"
    using assms by (simp add: decreaseCardQuantity_def Let_def del: ToString.simps)
  then show "Number (card_quantity (edit_deck_column (decreaseCardQuantity i s) ! i)) = Num (q - 1)"
    using assms(1) by (simp add: Number_ToString del: ToString.simps)
next
  assume "q - 1 \<le> 0"
  then show "edit_deck_column (decreaseCardQuantity i s) =
              take i (edit_deck_column s) @ drop (Suc i) (edit_deck_column s)"
    using assms by (simp add: decreaseCardQuantity_def Let_def)
next
  show "\<forall>r \<in> set (edit_deck_column (decreaseCardQuantity i s)).
             r \<in> set (edit_deck_column s) \<or> number_greater (Number (card_quantity r)) 0"
  proof (cases "0 < q - 1")
    case True
    then have "edit_deck_column (decreaseCardQuantity i s) =
              (edit_deck_column s)[i := (edit_deck_column s ! i)\<lparr>card_quantity := ToString (Num (q - 1))\<rparr>]"
      using assms by (simp add: decreaseCardQuantity_def Let_def del: ToString.simps)
    moreover have "Number (ToString (Num (q - 1))) = Num (q - 1)" by (rule Number_ToString)
    ultimately show ?thesis
      using True by (auto simp del: ToString.simps dest!: set_update_subset_insert [THEN subsetD])
  next
    case False
    then have "edit_deck_column (decreaseCardQuantity i s) =
              take i (edit_deck_column s) @ drop (Suc i) (edit_deck_column s)"
      using assms by (simp add: decreaseCardQuantity_def Let_def)
    then show ?thesis using set_remove_nth [of i "edit_deck_column s"] by auto
  qed
next
  fix es s'
  assume "quantities_positive (edit_deck_column s)
              \<and> changes_not_negative (decklistChanges s) \<and> run es s = Inr s'"
  then show "quantities_positive (edit_deck_column s')"
    using positive_run [of s es s'] by simp
qed

text \<open>
  The statement for the row of the loaded example page that shows 2.
\<close>

theorem decrease_writes_or_removes_witness:
  "(0::nat) < length (edit_deck_column loaded_page)
   \<and> Number (card_quantity (edit_deck_column loaded_page ! 0)) = Num 2
   \<and> Number (card_quantity (edit_deck_column (decreaseCardQuantity 0 loaded_page) ! 0)) = Num 1
   \<and> length (edit_deck_column (decreaseCardQuantity 0 loaded_page)) = 2
   \<and> quantities_positive (edit_deck_column loaded_page)
   \<and> changes_not_negative (decklistChanges loaded_page)
   \<and> run [RemoveCardBtn 0] loaded_page = Inr (decreaseCardQuantity 0 loaded_page)
   \<and> quantities_positive (edit_deck_column (decreaseCardQuantity 0 loaded_page))"
proof -
  have h1: "(0::nat) < length (edit_deck_column loaded_page)"
    by (simp add: loaded_page_def page_load_def rendered_page_def)
  have h2: "Number (card_quantity (edit_deck_column loaded_page ! 0)) = Num 2"
    by (simp add: loaded_page_def page_load_def rendered_page_def Number_2)
  have h3: "quantities_positive (edit_deck_column loaded_page)"
    by code_simp
  have h4: "changes_not_negative (decklistChanges loaded_page)"
    by (simp add: changes_not_negative_def loaded_page_def page_load_def)
  have h5: "run [RemoveCardBtn 0] loaded_page = Inr (decreaseCardQuantity 0 loaded_page)"
    by (simp add: loaded_page_def page_load_def rendered_page_def)
  note t = decrease_writes_or_removes [OF h1 h2]
  have p: "0 < (2::int) - 1" by simp
  from t p have "Number (card_quantity (edit_deck_column (decreaseCardQuantity 0 loaded_page) ! 0)) = Num (2 - 1)"
    by blast
  then have a: "Number (card_quantity (edit_deck_column (decreaseCardQuantity 0 loaded_page) ! 0)) = Num 1"
    by simp
  from t p have "edit_deck_column (decreaseCardQuantity 0 loaded_page) =
      (edit_deck_column loaded_page)[0 := (edit_deck_column loaded_page ! 0)\<lparr>card_quantity := ToString (Num (2 - 1))\<rparr>]"
    by blast
  then have b: "length (edit_deck_column (decreaseCardQuantity 0 loaded_page)) = 2"
    by (simp add: loaded_page_def page_load_def rendered_page_def del: ToString.simps)
  from t h3 h4 h5 have c: "quantities_positive (edit_deck_column (decreaseCardQuantity 0 loaded_page))"
    by blast
  from h1 h2 h3 h4 h5 a b c show ?thesis by blast
qed

text \<open>
  C9. The handlers of the increment and decrement controls leave \<open>decklistChanges\<close> as
  it is: they change nothing of the page but the deck column.
\<close>

theorem quantity_handlers_keep_decklistChanges:
  "decklistChanges (increaseCardQuantity i s) = decklistChanges s
   \<and> decklistChanges (decreaseCardQuantity i s) = decklistChanges s
   \<and> increaseCardQuantity i s = s\<lparr>edit_deck_column := edit_deck_column (increaseCardQuantity i s)\<rparr>
   \<and> decreaseCardQuantity i s = s\<lparr>edit_deck_column := edit_deck_column (decreaseCardQuantity i s)\<rparr>"
  by (simp add: increaseCardQuantity_def decreaseCardQuantity_def Let_def)

section \<open>The hero slot\<close>

text \<open>
  C3. While the hero slot is occupied, a click on the tile of a hero card changes
  nothing: not the name, not the stored reference, not the change-set. The slot changes
  only from empty to occupied, by a click on a hero tile, and from occupied to empty, by
  the remove-hero control; the quantity controls and the tiles of normal cards leave it
  as it is.
\<close>

theorem hero_slot_single_reference:
  "(cardType c = ''hero'' \<and> hero_slot s \<noteq> None \<longrightarrow> card_display_click c s = Inr s)
   \<and> (card_display_click c s = Inr s' \<and> hero_slot s' \<noteq> hero_slot s \<longrightarrow>
        cardType c = ''hero'' \<and> hero_slot s = None
        \<and> hero_slot s' = Some (cardName c, cardReference c))
   \<and> hero_slot (increaseCardQuantity i s) = hero_slot s
   \<and> hero_slot (decreaseCardQuantity i s) = hero_slot s
   \<and> hero_slot (remove_hero_click s) = None"
proof (intro conjI impI)
  assume "cardType c = ''hero'' \<and> hero_slot s \<noteq> None"
  then show "card_display_click c s = Inr s"
    by (simp add: card_display_click_def hero_slot_def split: if_splits)
next
  assume a: "card_display_click c s = Inr s' \<and> hero_slot s' \<noteq> hero_slot s"
  show "cardType c = ''hero''"
    using a by (auto simp: card_display_click_def hero_slot_def Let_def split: if_splits option.splits)
  show "hero_slot s = None"
    using a by (auto simp: card_display_click_def hero_slot_def Let_def split: if_splits option.splits)
  show "hero_slot s' = Some (cardName c, cardReference c)"
    using a by (auto simp: card_display_click_def hero_slot_def Let_def split: if_splits option.splits)
next
  show "hero_slot (increaseCardQuantity i s) = hero_slot s"
    by (simp add: hero_slot_def increaseCardQuantity_def Let_def)
  show "hero_slot (decreaseCardQuantity i s) = hero_slot s"
    by (simp add: hero_slot_def decreaseCardQuantity_def Let_def)
  show "hero_slot (remove_hero_click s) = None"
    by (simp add: hero_slot_def remove_hero_click_def Let_def)
qed

text \<open>
  The statement on the example page with a hero: a second hero is ignored.
\<close>

theorem hero_slot_single_reference_witness:
  "cardType teija = ''hero''
   \<and> hero_slot occupied_page = Some (''Sierra & Oddball'', ''ALT_CORE_B_AX_01_C'')
   \<and> card_display_click teija occupied_page = Inr occupied_page
   \<and> card_display_click sierra loaded_page = Inr occupied_page
   \<and> hero_slot loaded_page = None
   \<and> hero_slot (remove_hero_click occupied_page) = None"
proof -
  have h1: "cardType teija = ''hero''" by (simp add: teija_def)
  have h2: "hero_slot occupied_page = Some (''Sierra & Oddball'', ''ALT_CORE_B_AX_01_C'')"
    by (simp add: hero_slot_def occupied_page_def)
  have h3: "card_display_click sierra loaded_page = Inr occupied_page"
    by (simp add: occupied_page_def loaded_page_def sierra_def card_display_click_def
          page_load_def rendered_page_def)
  have h4: "hero_slot loaded_page = None"
    by (simp add: hero_slot_def loaded_page_def page_load_def rendered_page_def)
  from hero_slot_single_reference [of teija occupied_page occupied_page 0] h1 h2
  have "card_display_click teija occupied_page = Inr occupied_page
        \<and> hero_slot (remove_hero_click occupied_page) = None" by simp
  with h1 h2 h3 h4 show ?thesis by blast
qed

text \<open>
  C4 (as amended). A click on the remove-hero control with stored hero reference H
  leaves every other key of \<open>decklistChanges\<close> as it is. If H was a key, H is absent
  afterwards. If H was not a key and is not the name of a property inherited from
  \<open>Object.prototype\<close>, H maps to 0 afterwards. If H was not a key and is such a name,
  the test \<open>H in decklistChanges\<close> succeeds all the same and H is still not a key.
\<close>

theorem remove_hero_toggles_change_set:
  "decklistChanges (remove_hero_click s) =
     (decklistChanges s)
       (hero_name_cardReference s :=
          if hero_name_cardReference s \<in> dom (decklistChanges s)
             \<or> hero_name_cardReference s \<in> set Object_prototype
          then None else Some (Num 0))
   \<and> (hero_name_cardReference s \<notin> set Object_prototype \<longrightarrow>
        decklistChanges (remove_hero_click s) =
          (decklistChanges s)
            (hero_name_cardReference s :=
               if hero_name_cardReference s \<in> dom (decklistChanges s) then None
               else Some (Num 0)))"
  by (auto simp: remove_hero_click_def has_property_def Let_def split: option.splits)

text \<open>
  The statement on the example page with a hero: the reference of the hero is no
  inherited name and is a key of the change-set, and the click deletes it.
\<close>

theorem remove_hero_toggles_change_set_witness:
  "hero_name_cardReference occupied_page \<notin> set Object_prototype
   \<and> decklistChanges occupied_page (hero_name_cardReference occupied_page) = Some (Num 1)
   \<and> decklistChanges (remove_hero_click occupied_page) (hero_name_cardReference occupied_page)
       = None"
proof -
  have h1: "hero_name_cardReference occupied_page \<notin> set Object_prototype"
    by (simp add: occupied_page_def Object_prototype_def)
  have h2: "decklistChanges occupied_page (hero_name_cardReference occupied_page) = Some (Num 1)"
    by (simp add: occupied_page_def)
  from remove_hero_toggles_change_set [of occupied_page] h1
  have "decklistChanges (remove_hero_click occupied_page) =
          (decklistChanges occupied_page)
            (hero_name_cardReference occupied_page :=
               if hero_name_cardReference occupied_page \<in> dom (decklistChanges occupied_page)
               then None else Some (Num 0))"
    by blast
  with h2 have "decklistChanges (remove_hero_click occupied_page)
      (hero_name_cardReference occupied_page) = None"
    by (simp add: domI)
  with h1 h2 show ?thesis by blast
qed

text \<open>
  C4 as stated fails for a hero reference that names an inherited property: on a page
  whose hero has the reference \<open>toString\<close> and whose change-set is empty, the reference
  is no key before the click and is none afterwards, where the claim has it map to 0.
\<close>

theorem remove_hero_toggles_change_set_counterexample:
  "hero_name_cardReference inherited_name_page = ''toString''
   \<and> decklistChanges inherited_name_page ''toString'' = None
   \<and> decklistChanges (remove_hero_click inherited_name_page) ''toString'' = None
   \<and> decklistChanges (remove_hero_click inherited_name_page) ''toString'' \<noteq> Some (Num 0)"
  by (simp add: inherited_name_page_def loaded_page_def page_load_def remove_hero_click_def
        has_property_def Object_prototype_def Let_def)

text \<open>
  C6. After a click on the remove-hero control the hero name field is empty, its stored
  card reference is the empty string, and the control is disabled.
\<close>

theorem remove_hero_clears_slot:
  "hero_name_value (remove_hero_click s) = []
   \<and> hero_name_cardReference (remove_hero_click s) = []
   \<and> remove_hero_disabled (remove_hero_click s)"
  by (simp add: remove_hero_click_def Let_def)

section \<open>The chart data\<close>

lemma mset_insert_sorted: "mset (insert_sorted cmp x ys) = add_mset x (mset ys)"
  by (induction ys) simp_all

lemma mset_array_sort: "mset (array_sort cmp xs) = mset xs"
  by (induction xs) (simp_all add: mset_insert_sorted)

lemma set_insert_sorted: "set (insert_sorted cmp x ys) = insert x (set ys)"
  by (induction ys) auto

lemma sorted_insert_sorted:
  "sorted_wrt (\<lambda>a b. snd b \<le> snd a) ys \<Longrightarrow>
   sorted_wrt (\<lambda>a b. snd b \<le> snd a) (insert_sorted compare_counts x ys)"
  by (induction ys) (auto simp: set_insert_sorted compare_counts_def)

lemma sorted_array_sort:
  "sorted_wrt (\<lambda>a b. snd b \<le> snd a) (array_sort compare_counts xs)"
  by (induction xs) (simp_all add: sorted_insert_sorted)

text \<open>
  C8. The labels and the data of the chart have the same length, the data are in
  non-increasing order, and position by position they are the entries of the faction
  distribution: every pair of a label and the datum at its index is an entry of the
  object, so the datum is the count of that faction.
\<close>

theorem chart_data_sorted:
  "length (labels entries) = length (data entries)
   \<and> sorted_wrt (\<lambda>x y. y \<le> x) (data entries)
   \<and> zip (labels entries) (data entries) = deckStats entries
   \<and> mset (deckStats entries) = mset entries
   \<and> (\<forall>i. i < length (labels entries) \<longrightarrow>
         (labels entries ! i, data entries ! i) \<in> set entries
         \<and> (distinct (map fst entries) \<longrightarrow>
              map_of entries (labels entries ! i) = Some (data entries ! i)))"
proof (intro conjI allI impI)
  show "length (labels entries) = length (data entries)"
    by (simp add: labels_def data_def)
  show "sorted_wrt (\<lambda>x y. y \<le> x) (data entries)"
    using sorted_array_sort [of entries]
    by (simp add: data_def deckStats_def sorted_wrt_map)
  show z: "zip (labels entries) (data entries) = deckStats entries"
    by (simp add: labels_def data_def zip_map_fst_snd)
  show m: "mset (deckStats entries) = mset entries"
    by (simp add: deckStats_def mset_array_sort)
  fix i assume i: "i < length (labels entries)"
  then have "deckStats entries ! i = (labels entries ! i, data entries ! i)"
    by (simp add: labels_def data_def)
  moreover from i have "deckStats entries ! i \<in> set (deckStats entries)"
    by (simp add: labels_def)
  moreover have "set (deckStats entries) = set entries"
    using m by (rule mset_eq_setD)
  ultimately show mem: "(labels entries ! i, data entries ! i) \<in> set entries" by simp
  assume "distinct (map fst entries)"
  with mem show "map_of entries (labels entries ! i) = Some (data entries ! i)" by simp
qed

text \<open>
  The statement for the example distribution.
\<close>

theorem chart_data_sorted_witness:
  "0 < length (labels faction_distribution)
   \<and> distinct (map fst faction_distribution)
   \<and> labels faction_distribution = [''muna'', ''bravos'', ''axiom'', ''lyra'']
   \<and> data faction_distribution = [10, 7, 3, 3]
   \<and> map_of faction_distribution (labels faction_distribution ! 0) =
       Some (data faction_distribution ! 0)"
proof -
  have h1: "0 < length (labels faction_distribution)" by code_simp
  have h2: "distinct (map fst faction_distribution)" by code_simp
  have l: "labels faction_distribution = [''muna'', ''bravos'', ''axiom'', ''lyra'']"
    by code_simp
  have d: "data faction_distribution = [10, 7, 3, 3]" by code_simp
  from chart_data_sorted [of faction_distribution] h1 h2
  have "map_of faction_distribution (labels faction_distribution ! 0) =
       Some (data faction_distribution ! 0)" by blast
  with h1 h2 l d show ?thesis by blast
qed

end
